theory Spec2Isabelle
  imports Main "HOL-Library.Sublist"
begin

section \<open>The data read by the list view\<close>

text \<open>
  The fragment \<^verbatim>\<open>OAuth2SessionList_user\<close> selects, of the connection
  \<^verbatim>\<open>oauth2Sessions\<close>, the edges, and of every edge its cursor and its node. The view
  only hands the node on, so its type is left open.
\<close>

record 'n edge =
  cursor :: string
  node :: 'n

record 'n oauth2Sessions_connection =
  edges :: "'n edge list"

record 'n fragment_data =
  oauth2Sessions :: "'n oauth2Sessions_connection"

text \<open>
  What the view takes of the result of \<^verbatim>\<open>usePaginationFragment\<close>:
  \<^verbatim>\<open>const { data, loadNext, hasNext } = usePaginationFragment(...)\<close>.
  The hook belongs to the react-relay library; what a call of \<^verbatim>\<open>loadNext\<close> causes
  is of an open type.
\<close>

record ('n, 'eff) pagination =
  data :: "'n fragment_data"
  loadNext :: "int \<Rightarrow> 'eff"
  hasNext :: bool

record 'u Props =
  user :: 'u

section \<open>The rendered elements\<close>

text \<open>
  The elements that the JSX of the view can produce: the enclosing \<^verbatim>\<open>div\<close> with its
  children, the heading (class name and text), one \<^verbatim>\<open>OAuth2Session\<close> per edge (key
  and session), the button (class name, click handler and text), the array that
  \<^verbatim>\<open>map\<close> returns, and \<^verbatim>\<open>null\<close>.
\<close>

datatype ('n, 'eff) element =
    Div "('n, 'eff) element list"
  | H2 string string
  | OAuth2Session string 'n
  | Button string "unit \<Rightarrow> 'eff" string
  | Nodes "('n, 'eff) element list"
  | Null

section \<open>The view\<close>

text \<open>
  \<^verbatim>\<open>OAuth2SessionList\<close>, lines 24 to 57 of the source. The hook is a parameter of the
  model; the literal of the fragment is a constant of the call and is left out.
\<close>

definition OAuth2SessionList ::
  "('u \<Rightarrow> ('n, 'eff) pagination) \<Rightarrow> 'u Props \<Rightarrow> ('n, 'eff) element" where
  "OAuth2SessionList usePaginationFragment props =
     (let r = usePaginationFragment (user props) in
      Div [H2 ''text-lg'' ''List of OAuth 2.0 sessions:'',
           Nodes (map (\<lambda>n. OAuth2Session (cursor n) (node n))
                      (edges (oauth2Sessions (data r)))),
           if hasNext r
           then Button ''bg-accent p-2 rounded'' (\<lambda>_. loadNext r 2) ''Load more''
           else Null])"

section \<open>Reading a rendered tree\<close>

text \<open>The session items of a tree, in document order, each with its key.\<close>

fun session_items :: "('n, 'eff) element \<Rightarrow> (string \<times> 'n) list" where
  "session_items (Div cs) = concat (map session_items cs)"
| "session_items (Nodes cs) = concat (map session_items cs)"
| "session_items (OAuth2Session k s) = [(k, s)]"
| "session_items (H2 c t) = []"
| "session_items (Button c h t) = []"
| "session_items Null = []"

text \<open>The buttons of a tree, in document order: click handler and text.\<close>

fun buttons :: "('n, 'eff) element \<Rightarrow> ((unit \<Rightarrow> 'eff) \<times> string) list" where
  "buttons (Div cs) = concat (map buttons cs)"
| "buttons (Nodes cs) = concat (map buttons cs)"
| "buttons (Button c h t) = [(h, t)]"
| "buttons (H2 c t) = []"
| "buttons (OAuth2Session k s) = []"
| "buttons Null = []"

text \<open>
  The text that the view itself puts on the page, in document order: the heading and
  the labels of the buttons. What a session item shows is the child's business.
\<close>

fun texts :: "('n, 'eff) element \<Rightarrow> string list" where
  "texts (Div cs) = concat (map texts cs)"
| "texts (Nodes cs) = concat (map texts cs)"
| "texts (H2 c t) = [t]"
| "texts (Button c h t) = [t]"
| "texts (OAuth2Session k s) = []"
| "texts Null = []"

text \<open>The load-more control is the button labelled \<^verbatim>\<open>Load more\<close>.\<close>

definition load_more_present :: "('n, 'eff) element \<Rightarrow> bool" where
  "load_more_present e = (''Load more'' \<in> snd ` set (buttons e))"

text \<open>What a click on each button of the tree causes.\<close>

definition click_effects :: "('n, 'eff) element \<Rightarrow> 'eff list" where
  "click_effects e = map (\<lambda>b. fst b ()) (buttons e)"

text \<open>
  The same hook result with every node replaced by its image under \<open>f\<close>; cursors,
  \<^verbatim>\<open>hasNext\<close> and \<^verbatim>\<open>loadNext\<close> are kept.
\<close>

definition map_nodes :: "('a \<Rightarrow> 'b) \<Rightarrow> ('a, 'eff) pagination \<Rightarrow> ('b, 'eff) pagination" where
  "map_nodes f r =
     \<lparr>data = \<lparr>oauth2Sessions = \<lparr>edges =
        map (\<lambda>n. \<lparr>cursor = cursor n, node = f (node n)\<rparr>) (edges (oauth2Sessions (data r)))\<rparr>\<rparr>,
      loadNext = loadNext r,
      hasNext = hasNext r\<rparr>"

section \<open>The pagination hook and the data source, from the specification\<close>

text \<open>
  Modelled from the spec: the Connection State of section 3, the ordered edges and the
  flag \<^verbatim>\<open>hasNext\<close>. It is kept by \<^verbatim>\<open>usePaginationFragment\<close> of react-relay, whose code
  is not among the sources.
\<close>

record 'n connection_state =
  cs_edges :: "'n edge list"
  cs_hasNext :: bool

text \<open>
  Modelled from the spec: the answer of the data source of section 6,
  \<^verbatim>\<open>{ edges: [{cursor, node}], pageInfo: { hasNextPage } }\<close>, where the pagination
  metadata may be missing (section 7, case c), and a fetch that may fail (section 7,
  case b).
\<close>

record page_info =
  hasNextPage :: bool

record 'n page =
  page_edges :: "'n edge list"
  pageInfo :: "page_info option"

datatype 'n fetch_outcome = Fetched "'n page" | FetchFailed

text \<open>
  Modelled from the spec: what a call of \<^verbatim>\<open>loadNext\<close> causes, the request of the next
  page of a given size (section 4.1, load-more action).
\<close>

datatype request = NextPage int

text \<open>
  Modelled from the spec: the result of \<^verbatim>\<open>usePaginationFragment\<close> in a mounted view
  with Connection State \<open>st\<close>: the edges and \<^verbatim>\<open>hasNext\<close> of the state, and a
  \<^verbatim>\<open>loadNext\<close> that requests the next page.
\<close>

definition usePaginationFragment_spec ::
  "'n connection_state \<Rightarrow> 'u \<Rightarrow> ('n, request) pagination" where
  "usePaginationFragment_spec st u =
     \<lparr>data = \<lparr>oauth2Sessions = \<lparr>edges = cs_edges st\<rparr>\<rparr>,
      loadNext = NextPage,
      hasNext = cs_hasNext st\<rparr>"

text \<open>
  Modelled from the spec: the effect of one load-more on the Connection State (sections
  4.1 and 7). A page that arrives is appended to the end of the edges and \<^verbatim>\<open>hasNext\<close>
  is taken from its \<^verbatim>\<open>pageInfo\<close>, a missing \<^verbatim>\<open>pageInfo\<close> counting as false; a failed
  fetch leaves the state as it is.
\<close>

definition load_more :: "'n connection_state \<Rightarrow> 'n fetch_outcome \<Rightarrow> 'n connection_state" where
  "load_more st outcome =
     (case outcome of
        FetchFailed \<Rightarrow> st
      | Fetched pg \<Rightarrow>
          \<lparr>cs_edges = cs_edges st @ page_edges pg,
           cs_hasNext = (case pageInfo pg of None \<Rightarrow> False | Some i \<Rightarrow> hasNextPage i)\<rparr>)"

text \<open>Modelled from the spec: successive loads within one mount lifecycle.\<close>

fun load_more_seq :: "'n connection_state \<Rightarrow> 'n fetch_outcome list \<Rightarrow> 'n connection_state" where
  "load_more_seq st [] = st"
| "load_more_seq st (x # xs) = load_more_seq (load_more st x) xs"

text \<open>The view of the source, mounted on the hook of the specification.\<close>

definition mounted_view :: "'n connection_state \<Rightarrow> 'u Props \<Rightarrow> ('n, request) element" where
  "mounted_view st props = OAuth2SessionList (usePaginationFragment_spec st) props"

text \<open>
  A failed load is surfaced by the view when what it renders after the failure differs
  in any way from what it rendered before the attempt: a message, a banner, a changed
  control.
\<close>

definition failure_surfaced :: "('n, 'eff) element \<Rightarrow> ('n, 'eff) element \<Rightarrow> bool" where
  "failure_surfaced before after = (after \<noteq> before)"

section \<open>Facts about the view\<close>

lemma session_items_view:
  "session_items (OAuth2SessionList h p) =
     map (\<lambda>n. (cursor n, node n)) (edges (oauth2Sessions (data (h (user p)))))"
  by (simp add: OAuth2SessionList_def Let_def comp_def)

lemma buttons_view:
  "buttons (OAuth2SessionList h p) =
     (if hasNext (h (user p)) then [(\<lambda>_. loadNext (h (user p)) 2, ''Load more'')] else [])"
  by (simp add: OAuth2SessionList_def Let_def)

text \<open>
  C2. Whatever the hook returns, the rendered tree holds the load-more control exactly
  when \<^verbatim>\<open>hasNext\<close> is true; with \<^verbatim>\<open>hasNext\<close> false the tree holds no button at all.
\<close>

theorem load_more_present_iff_hasNext:
  "load_more_present (OAuth2SessionList h p) = hasNext (h (user p))
   \<and> (buttons (OAuth2SessionList h p) = []) = (\<not> hasNext (h (user p)))"
  by (simp add: load_more_present_def buttons_view)

lemma texts_view:
  "texts (OAuth2SessionList h p) =
     ''List of OAuth 2.0 sessions:'' # (if hasNext (h (user p)) then [''Load more''] else [])"
  by (simp add: OAuth2SessionList_def Let_def comp_def)

lemma map_fst_cursor_node: "map fst (map (\<lambda>n. (cursor n, node n)) es) = map cursor es"
  by (simp add: comp_def)

lemma map_snd_cursor_node: "map snd (map (\<lambda>n. (cursor n, node n)) es) = map node es"
  by (simp add: comp_def)

lemma blank_items:
  "map (\<lambda>n. OAuth2Session (cursor n) ()) es = map (\<lambda>c. OAuth2Session c ()) (map cursor es)"
  by (simp add: comp_def)

text \<open>
  C4. The view renders one session item per edge, in the order of the edges: the
  \<open>i\<close>-th item has the cursor of the \<open>i\<close>-th edge as its key and the node of that edge
  as its session. When the cursors of the edges are pairwise distinct, so are the keys
  of the rendered items.
\<close>

theorem one_item_per_edge_keyed_by_cursor:
  assumes "edges (oauth2Sessions (data (h (user p)))) = es"
  shows "session_items (OAuth2SessionList h p) = map (\<lambda>n. (cursor n, node n)) es
         \<and> length (session_items (OAuth2SessionList h p)) = length es
         \<and> (\<forall>i < length es.
               fst (session_items (OAuth2SessionList h p) ! i) = cursor (es ! i)
               \<and> snd (session_items (OAuth2SessionList h p) ! i) = node (es ! i))
         \<and> (distinct (map cursor es)
               \<longrightarrow> distinct (map fst (session_items (OAuth2SessionList h p))))"
proof -
  have items: "session_items (OAuth2SessionList h p) = map (\<lambda>n. (cursor n, node n)) es"
    using assms by (simp add: session_items_view)
  have keys: "map fst (session_items (OAuth2SessionList h p)) = map cursor es"
    by (simp only: items map_fst_cursor_node)
  show ?thesis
    by (simp add: keys) (simp add: items)
qed

theorem one_item_per_edge_keyed_by_cursor_witness:
  "distinct (map cursor [\<lparr>cursor = ''c1'', node = (1::nat)\<rparr>, \<lparr>cursor = ''c2'', node = 2\<rparr>])
   \<and> session_items
        (OAuth2SessionList
          (\<lambda>u::unit. \<lparr>data = \<lparr>oauth2Sessions = \<lparr>edges =
              [\<lparr>cursor = ''c1'', node = (1::nat)\<rparr>, \<lparr>cursor = ''c2'', node = 2\<rparr>]\<rparr>\<rparr>,
            loadNext = (\<lambda>n. n), hasNext = True\<rparr>)
          \<lparr>user = ()\<rparr>) = [(''c1'', 1), (''c2'', 2)]
   \<and> distinct (map fst (session_items
        (OAuth2SessionList
          (\<lambda>u::unit. \<lparr>data = \<lparr>oauth2Sessions = \<lparr>edges =
              [\<lparr>cursor = ''c1'', node = (1::nat)\<rparr>, \<lparr>cursor = ''c2'', node = 2\<rparr>]\<rparr>\<rparr>,
            loadNext = (\<lambda>n. n), hasNext = True\<rparr>)
          \<lparr>user = ()\<rparr>)))"
  using one_item_per_edge_keyed_by_cursor
    [of "\<lambda>u::unit. \<lparr>data = \<lparr>oauth2Sessions = \<lparr>edges =
              [\<lparr>cursor = ''c1'', node = (1::nat)\<rparr>, \<lparr>cursor = ''c2'', node = 2\<rparr>]\<rparr>\<rparr>,
            loadNext = (\<lambda>n. n), hasNext = True\<rparr>"
        "\<lparr>user = ()\<rparr>"
        "[\<lparr>cursor = ''c1'', node = (1::nat)\<rparr>, \<lparr>cursor = ''c2'', node = 2\<rparr>]"]
  by simp

text \<open>
  C8. Whatever the hook returns, a click on the load-more control calls
  \<^verbatim>\<open>loadNext\<close> with the page size 2 and nothing else; the size is the literal of the
  source and does not depend on the state.
\<close>

theorem load_more_requests_two:
  "click_effects (OAuth2SessionList h p) =
     (if hasNext (h (user p)) then [loadNext (h (user p)) 2] else [])
   \<and> set (click_effects (OAuth2SessionList h p)) \<subseteq> {loadNext (h (user p)) 2}"
  by (simp add: click_effects_def buttons_view)

text \<open>
  C9. The view does not look into the nodes. Replacing every node by its image under
  any function \<open>f\<close> changes the rendered tree in the sessions handed to the items and
  nowhere else. Hence two hook results whose edges carry the same cursors in the same
  order, with the same \<^verbatim>\<open>hasNext\<close> and \<^verbatim>\<open>loadNext\<close>, render trees that are equal once
  the sessions are blanked out (same heading, same number of items, same keys, same
  load-more control), and the sessions handed on are the nodes of the edges, in order.
\<close>

theorem nodes_passed_through_opaquely:
  assumes "map cursor (edges (oauth2Sessions (data (h1 (user p1)))))
           = map cursor (edges (oauth2Sessions (data (h2 (user p2)))))"
    and "hasNext (h1 (user p1)) = hasNext (h2 (user p2))"
    and "loadNext (h1 (user p1)) = loadNext (h2 (user p2))"
  shows "map_element (\<lambda>_. ()) id (OAuth2SessionList h1 p1)
           = map_element (\<lambda>_. ()) id (OAuth2SessionList h2 p2)
         \<and> map snd (session_items (OAuth2SessionList h1 p1))
           = map node (edges (oauth2Sessions (data (h1 (user p1)))))
         \<and> map snd (session_items (OAuth2SessionList h2 p2))
           = map node (edges (oauth2Sessions (data (h2 (user p2)))))
         \<and> OAuth2SessionList (\<lambda>u. map_nodes f (h1 u)) p1
           = map_element f id (OAuth2SessionList h1 p1)"
proof -
  have same_items:
    "map (\<lambda>n. OAuth2Session (cursor n) ()) (edges (oauth2Sessions (data (h1 (user p1)))))
     = map (\<lambda>n. OAuth2Session (cursor n) ()) (edges (oauth2Sessions (data (h2 (user p2)))))"
    by (simp only: blank_items assms(1))
  have "map_element (\<lambda>_. ()) id (OAuth2SessionList h1 p1)
          = map_element (\<lambda>_. ()) id (OAuth2SessionList h2 p2)"
    using assms(2,3) same_items by (simp add: OAuth2SessionList_def Let_def comp_def)
  moreover have "OAuth2SessionList (\<lambda>u. map_nodes f (h1 u)) p1
          = map_element f id (OAuth2SessionList h1 p1)"
    by (simp add: OAuth2SessionList_def Let_def map_nodes_def comp_def)
  ultimately show ?thesis
    by (simp add: session_items_view map_snd_cursor_node)
qed

theorem nodes_passed_through_opaquely_witness:
  "map_element (\<lambda>_. ()) id
     (OAuth2SessionList
       (\<lambda>u::unit. \<lparr>data = \<lparr>oauth2Sessions = \<lparr>edges = [\<lparr>cursor = ''c1'', node = (1::nat)\<rparr>]\<rparr>\<rparr>,
                   loadNext = (\<lambda>n::int. n), hasNext = True\<rparr>)
       \<lparr>user = ()\<rparr>)
   = map_element (\<lambda>_. ()) id
     (OAuth2SessionList
       (\<lambda>u::unit. \<lparr>data = \<lparr>oauth2Sessions = \<lparr>edges = [\<lparr>cursor = ''c1'', node = (7::nat)\<rparr>]\<rparr>\<rparr>,
                   loadNext = (\<lambda>n::int. n), hasNext = True\<rparr>)
       \<lparr>user = ()\<rparr>)
   \<and> map snd (session_items
       (OAuth2SessionList
         (\<lambda>u::unit. \<lparr>data = \<lparr>oauth2Sessions = \<lparr>edges = [\<lparr>cursor = ''c1'', node = (7::nat)\<rparr>]\<rparr>\<rparr>,
                     loadNext = (\<lambda>n::int. n), hasNext = True\<rparr>)
         \<lparr>user = ()\<rparr>)) = [7]"
  using nodes_passed_through_opaquely
    [of "\<lambda>u::unit. \<lparr>data = \<lparr>oauth2Sessions = \<lparr>edges = [\<lparr>cursor = ''c1'', node = (1::nat)\<rparr>]\<rparr>\<rparr>,
                   loadNext = (\<lambda>n::int. n), hasNext = True\<rparr>"
        "\<lparr>user = ()\<rparr>"
        "\<lambda>u::unit. \<lparr>data = \<lparr>oauth2Sessions = \<lparr>edges = [\<lparr>cursor = ''c1'', node = (7::nat)\<rparr>]\<rparr>\<rparr>,
                   loadNext = (\<lambda>n::int. n), hasNext = True\<rparr>"
        "\<lparr>user = ()\<rparr>"
        id]
  by simp

text \<open>
  C10. With no edges the view still renders: the enclosing element holds the heading,
  an empty array of session items and, when \<^verbatim>\<open>hasNext\<close> is false, nothing but
  \<^verbatim>\<open>null\<close>. The array method \<^verbatim>\<open>map\<close> of an empty array calls nothing and returns
  the empty array, as \<open>map\<close> does on the empty list.
\<close>

theorem empty_edges_render:
  assumes "edges (oauth2Sessions (data (h (user p)))) = []"
  shows "OAuth2SessionList h p =
           Div [H2 ''text-lg'' ''List of OAuth 2.0 sessions:'',
                Nodes [],
                if hasNext (h (user p))
                then Button ''bg-accent p-2 rounded'' (\<lambda>_. loadNext (h (user p)) 2) ''Load more''
                else Null]
         \<and> session_items (OAuth2SessionList h p) = []
         \<and> (\<not> hasNext (h (user p)) \<longrightarrow>
              OAuth2SessionList h p =
                Div [H2 ''text-lg'' ''List of OAuth 2.0 sessions:'', Nodes [], Null]
              \<and> texts (OAuth2SessionList h p) = [''List of OAuth 2.0 sessions:''])"
  using assms by (simp add: OAuth2SessionList_def Let_def)

theorem empty_edges_render_witness:
  "edges (oauth2Sessions (data
      ((\<lambda>u::unit. \<lparr>data = \<lparr>oauth2Sessions = \<lparr>edges = ([] :: nat edge list)\<rparr>\<rparr>,
                   loadNext = (\<lambda>n::int. n), hasNext = False\<rparr>) (user \<lparr>user = ()\<rparr>)))) = []
   \<and> OAuth2SessionList
        (\<lambda>u::unit. \<lparr>data = \<lparr>oauth2Sessions = \<lparr>edges = ([] :: nat edge list)\<rparr>\<rparr>,
                    loadNext = (\<lambda>n::int. n), hasNext = False\<rparr>)
        \<lparr>user = ()\<rparr>
      = Div [H2 ''text-lg'' ''List of OAuth 2.0 sessions:'', Nodes [], Null]"
  using empty_edges_render
    [of "\<lambda>u::unit. \<lparr>data = \<lparr>oauth2Sessions = \<lparr>edges = ([] :: nat edge list)\<rparr>\<rparr>,
                    loadNext = (\<lambda>n::int. n), hasNext = False\<rparr>"
        "\<lparr>user = ()\<rparr>"]
  by simp

section \<open>The view on the hook of the specification\<close>

lemma session_items_mounted:
  "session_items (mounted_view st p) = map (\<lambda>n. (cursor n, node n)) (cs_edges st)"
  by (simp add: mounted_view_def session_items_view usePaginationFragment_spec_def)

lemma buttons_mounted:
  "buttons (mounted_view st p) =
     (if cs_hasNext st then [(\<lambda>_. NextPage 2, ''Load more'')] else [])"
  by (simp add: mounted_view_def buttons_view usePaginationFragment_spec_def)

lemma texts_mounted:
  "texts (mounted_view st p) =
     ''List of OAuth 2.0 sessions:'' # (if cs_hasNext st then [''Load more''] else [])"
  by (simp add: mounted_view_def texts_view usePaginationFragment_spec_def)

lemma load_more_present_mounted:
  "load_more_present (mounted_view st p) = cs_hasNext st"
  by (cases "cs_hasNext st") (simp_all add: load_more_present_def buttons_mounted)

lemma edges_load_more_seq:
  "cs_edges (load_more_seq st (map Fetched ps)) = cs_edges st @ concat (map page_edges ps)"
  by (induction ps arbitrary: st) (simp_all add: load_more_def)

text \<open>
  C1. A load-more that succeeds appends the edges of the page to the end of the edges
  held so far and takes \<^verbatim>\<open>hasNext\<close> from the page. In the example of the
  specification, the view on edges \<^verbatim>\<open>c1\<close>, \<^verbatim>\<open>c2\<close> with \<^verbatim>\<open>hasNext\<close> true offers the control,
  whose click requests a page; after the page with the one edge \<^verbatim>\<open>c3\<close> and
  \<^verbatim>\<open>hasNextPage\<close> false has arrived, the view renders the items \<open>S1\<close>, \<open>S2\<close>, \<open>S3\<close>
  in this order and offers no load-more control.
\<close>

theorem load_more_appends_page:
  "cs_edges (load_more st (Fetched pg)) = cs_edges st @ page_edges pg
   \<and> cs_hasNext (load_more st
        (Fetched \<lparr>page_edges = es, pageInfo = Some \<lparr>hasNextPage = b\<rparr>\<rparr>)) = b
   \<and> load_more_present
        (mounted_view
          \<lparr>cs_edges = [\<lparr>cursor = ''c1'', node = S1\<rparr>, \<lparr>cursor = ''c2'', node = S2\<rparr>],
           cs_hasNext = True\<rparr> p)
   \<and> click_effects
        (mounted_view
          \<lparr>cs_edges = [\<lparr>cursor = ''c1'', node = S1\<rparr>, \<lparr>cursor = ''c2'', node = S2\<rparr>],
           cs_hasNext = True\<rparr> p) = [NextPage 2]
   \<and> map snd (session_items
        (mounted_view
          (load_more
            \<lparr>cs_edges = [\<lparr>cursor = ''c1'', node = S1\<rparr>, \<lparr>cursor = ''c2'', node = S2\<rparr>],
             cs_hasNext = True\<rparr>
            (Fetched \<lparr>page_edges = [\<lparr>cursor = ''c3'', node = S3\<rparr>],
                      pageInfo = Some \<lparr>hasNextPage = False\<rparr>\<rparr>)) p)) = [S1, S2, S3]
   \<and> map fst (session_items
        (mounted_view
          (load_more
            \<lparr>cs_edges = [\<lparr>cursor = ''c1'', node = S1\<rparr>, \<lparr>cursor = ''c2'', node = S2\<rparr>],
             cs_hasNext = True\<rparr>
            (Fetched \<lparr>page_edges = [\<lparr>cursor = ''c3'', node = S3\<rparr>],
                      pageInfo = Some \<lparr>hasNextPage = False\<rparr>\<rparr>)) p)) = [''c1'', ''c2'', ''c3'']
   \<and> \<not> load_more_present
        (mounted_view
          (load_more
            \<lparr>cs_edges = [\<lparr>cursor = ''c1'', node = S1\<rparr>, \<lparr>cursor = ''c2'', node = S2\<rparr>],
             cs_hasNext = True\<rparr>
            (Fetched \<lparr>page_edges = [\<lparr>cursor = ''c3'', node = S3\<rparr>],
                      pageInfo = Some \<lparr>hasNextPage = False\<rparr>\<rparr>)) p)"
  by (simp add: load_more_def session_items_mounted buttons_mounted
      load_more_present_def click_effects_def)

text \<open>
  C3. Over any sequence of successful loads the edges only grow: the edges held before
  are a prefix of the edges held after, every further load extends the edges held so
  far, and the number of edges is the number held at the start plus the sizes of the
  pages that arrived; from an empty start it is the sum of the page sizes.
\<close>

theorem edges_only_grow:
  "prefix (cs_edges st) (cs_edges (load_more_seq st (map Fetched ps)))
   \<and> length (cs_edges (load_more_seq st (map Fetched ps)))
       = length (cs_edges st) + sum_list (map (\<lambda>pg. length (page_edges pg)) ps)
   \<and> length (cs_edges (load_more_seq \<lparr>cs_edges = [], cs_hasNext = b\<rparr> (map Fetched ps)))
       = sum_list (map (\<lambda>pg. length (page_edges pg)) ps)
   \<and> prefix (cs_edges (load_more_seq st (map Fetched ps)))
            (cs_edges (load_more_seq st (map Fetched (ps @ [pg]))))
   \<and> length (cs_edges (load_more_seq st (map Fetched ps)))
       \<le> length (cs_edges (load_more_seq st (map Fetched (ps @ [pg]))))"
proof -
  have len: "length (concat (map page_edges qs)) = sum_list (map (\<lambda>pg. length (page_edges pg)) qs)"
    for qs :: "'a page list"
    by (simp add: length_concat comp_def)
  have grows: "prefix (cs_edges st) (cs_edges (load_more_seq st (map Fetched ps)))"
    by (simp only: edges_load_more_seq prefixI)
  have size: "length (cs_edges (load_more_seq st' (map Fetched ps)))
       = length (cs_edges st') + sum_list (map (\<lambda>pg. length (page_edges pg)) ps)"
    for st' :: "'a connection_state"
    by (simp only: edges_load_more_seq length_append len)
  have size_empty:
    "length (cs_edges (load_more_seq \<lparr>cs_edges = [], cs_hasNext = b\<rparr> (map Fetched ps)))
       = sum_list (map (\<lambda>pg. length (page_edges pg)) ps)"
    by (simp only: size) simp
  have one_more: "cs_edges (load_more_seq st (map Fetched (ps @ [pg])))
            = cs_edges (load_more_seq st (map Fetched ps)) @ page_edges pg"
    by (simp only: edges_load_more_seq) simp
  have step: "prefix (cs_edges (load_more_seq st (map Fetched ps)))
            (cs_edges (load_more_seq st (map Fetched (ps @ [pg]))))"
    by (simp only: one_more prefixI)
  have mono: "length (cs_edges (load_more_seq st (map Fetched ps)))
       \<le> length (cs_edges (load_more_seq st (map Fetched (ps @ [pg]))))"
    using step by (rule prefix_length_le)
  from grows size [of st] size_empty step mono show ?thesis
    by (intro conjI)
qed

text \<open>
  C6, as the code has it. A failed load leaves the Connection State exactly as it was,
  and the view renders exactly what it rendered before the attempt: it shows the
  heading, the items and, when \<^verbatim>\<open>hasNext\<close> is true, the load-more control, by which the
  load can be tried again. The view takes only \<^verbatim>\<open>data\<close>, \<^verbatim>\<open>loadNext\<close> and \<^verbatim>\<open>hasNext\<close>
  from the hook and calls \<^verbatim>\<open>loadNext(2)\<close> with no completion callback, so nothing of
  the failure reaches what it renders.
\<close>

theorem failed_load_keeps_state_and_view:
  "load_more st FetchFailed = st
   \<and> mounted_view (load_more st FetchFailed) p = mounted_view st p
   \<and> load_more_present (mounted_view (load_more st FetchFailed) p) = cs_hasNext st
   \<and> texts (mounted_view (load_more st FetchFailed) p)
       = ''List of OAuth 2.0 sessions:'' # (if cs_hasNext st then [''Load more''] else [])"
  by (simp add: load_more_def texts_mounted load_more_present_mounted)

text \<open>
  C6, as the specification states it, fails: after a failed load on one edge with
  \<^verbatim>\<open>hasNext\<close> true the failure is not surfaced. The view renders what it rendered
  before, and the only text it shows is the heading and the label of the control.
\<close>

theorem failed_load_not_surfaced:
  "\<not> failure_surfaced
        (mounted_view \<lparr>cs_edges = [\<lparr>cursor = ''c1'', node = ''S1''\<rparr>], cs_hasNext = True\<rparr>
           \<lparr>user = ()\<rparr>)
        (mounted_view
           (load_more \<lparr>cs_edges = [\<lparr>cursor = ''c1'', node = ''S1''\<rparr>], cs_hasNext = True\<rparr>
              FetchFailed)
           \<lparr>user = ()\<rparr>)
   \<and> texts
        (mounted_view
           (load_more \<lparr>cs_edges = [\<lparr>cursor = ''c1'', node = ''S1''\<rparr>], cs_hasNext = True\<rparr>
              FetchFailed)
           \<lparr>user = ()\<rparr>) = [''List of OAuth 2.0 sessions:'', ''Load more'']"
  by (simp add: failure_surfaced_def load_more_def texts_mounted)

text \<open>
  C7. A page that arrives without \<^verbatim>\<open>pageInfo\<close> sets \<^verbatim>\<open>hasNext\<close> to false: the view then
  offers no load-more control, and no click can request a further page.
\<close>

theorem missing_pageInfo_fails_safe:
  assumes "pageInfo pg = None"
  shows "\<not> cs_hasNext (load_more st (Fetched pg))
         \<and> \<not> load_more_present (mounted_view (load_more st (Fetched pg)) p)
         \<and> click_effects (mounted_view (load_more st (Fetched pg)) p) = []"
  using assms
  by (simp add: load_more_def buttons_mounted load_more_present_def click_effects_def)

theorem missing_pageInfo_fails_safe_witness:
  "pageInfo \<lparr>page_edges = [\<lparr>cursor = ''c3'', node = ''S3''\<rparr>], pageInfo = None\<rparr> = None
   \<and> \<not> load_more_present
        (mounted_view
          (load_more \<lparr>cs_edges = [\<lparr>cursor = ''c1'', node = ''S1''\<rparr>], cs_hasNext = True\<rparr>
             (Fetched \<lparr>page_edges = [\<lparr>cursor = ''c3'', node = ''S3''\<rparr>], pageInfo = None\<rparr>))
          \<lparr>user = ()\<rparr>)"
  using missing_pageInfo_fails_safe
    [of "\<lparr>page_edges = [\<lparr>cursor = ''c3'', node = ''S3''\<rparr>], pageInfo = None\<rparr>"
        "\<lparr>cs_edges = [\<lparr>cursor = ''c1'', node = ''S1''\<rparr>], cs_hasNext = True\<rparr>"
        "\<lparr>user = ()\<rparr>"]
  by simp

end
